theory Spec2Isabelle
  imports Complex_Main
begin

section \<open>Airport tracking: correlation and geospatial filtering\<close>

text \<open>
  A shallow embedding of the API client (\<^verbatim>\<open>utils/apiclient.js\<close> and its later revision
  with the tiler and the deduplicator), of the flight monitor's \<^verbatim>\<open>getLiveFlights\<close> and of the
  passenger service's \<^verbatim>\<open>determineStatus\<close>.

  Conventions of the embedding:
  \<^item> a JavaScript number is a \<^typ>\<open>real\<close>: arithmetic is exact, and \<^verbatim>\<open>NaN\<close>, the infinities
    and rounding of doubles are not represented;
  \<^item> a field that may be \<^verbatim>\<open>null\<close> or \<^verbatim>\<open>undefined\<close> is an \<^typ>\<open>'a option\<close>;
  \<^item> an ISO-8601 timestamp string is represented by the instant it denotes
    (milliseconds since the epoch), so a present timestamp is always truthy;
  \<^item> a thrown exception is \<^term>\<open>Inl e\<close> of a sum type, a \<^verbatim>\<open>try/catch\<close> is a case
    distinction on it;
  \<^item> the result of \<^verbatim>\<open>axios.get\<close> is \<^term>\<open>Rejected\<close> (timeout, DNS failure,
    non-2xx status) or \<^term>\<open>Resolved\<close> with the decoded body.
\<close>

subsection \<open>JavaScript values\<close>

datatype js_error = TypeError | RequestFailed

datatype 'a response = Rejected | Resolved 'a

text \<open>Truthiness of a possibly absent string: \<^verbatim>\<open>null\<close>, \<^verbatim>\<open>undefined\<close> and \<^verbatim>\<open>""\<close> are falsy.\<close>

fun truthy :: "string option \<Rightarrow> bool" where
  "truthy None = False"
| "truthy (Some s) = (s \<noteq> [])"

text \<open>\<^verbatim>\<open>x || d\<close> on a possibly absent string and on a possibly absent number.\<close>

definition or_str :: "string option \<Rightarrow> string \<Rightarrow> string" where
  "or_str x d = (if truthy x then the x else d)"

fun or_num :: "real option \<Rightarrow> real \<Rightarrow> real" where
  "or_num None d = d"
| "or_num (Some x) d = (if x = 0 then d else x)"

text \<open>\<^verbatim>\<open>ToNumber\<close> as arithmetic applies it to a coordinate: \<^verbatim>\<open>null\<close> counts as 0.\<close>

fun toNumber :: "real option \<Rightarrow> real" where
  "toNumber None = 0"
| "toNumber (Some x) = x"

text \<open>\<^verbatim>\<open>String.prototype.trim\<close>, on the ASCII white space characters.\<close>

definition isSpace :: "char \<Rightarrow> bool" where
  "isSpace c = (c \<in> set [CHR '' '', CHR 0x09, CHR 0x0A, CHR 0x0B, CHR 0x0C, CHR 0x0D])"

definition trim :: "string \<Rightarrow> string" where
  "trim s = rev (dropWhile isSpace (rev (dropWhile isSpace s)))"

text \<open>\<^verbatim>\<open>s.substring(0, n)\<close> and \<^verbatim>\<open>s.includes(p)\<close>.\<close>

definition substring0 :: "string \<Rightarrow> nat \<Rightarrow> string" where
  "substring0 s n = take n s"

fun str_includes :: "string \<Rightarrow> string \<Rightarrow> bool" where
  "str_includes [] p = (p = [])"
| "str_includes (c # cs) p = (take (length p) (c # cs) = p \<or> str_includes cs p)"

subsection \<open>Schedule records\<close>

record endpoint =
  airport :: "string option"
  iata :: "string option"
  scheduled :: "int option"
  estimated :: "int option"
  actual :: "int option"
  terminal :: "string option"
  gate :: "string option"

record aircraft =
  registration :: "string option"
  iataType :: "string option"
  icaoType :: "string option"

record schedule =
  flightNumber :: "string option"
  airline :: "string option"
  airlineCode :: "string option"
  departure :: endpoint
  arrival :: endpoint
  status :: "string option"
  aircraft :: "aircraft option"

subsection \<open>Status resolution\<close>

text \<open>
  The live position as the monitor sees it: only \<^verbatim>\<open>on_ground\<close> and \<^verbatim>\<open>altitude\<close> (feet) are
  read. \<^verbatim>\<open>determineStatusFromOpenSky\<close> of the flight monitor service.
\<close>

definition determineStatusFromOpenSky :: "bool \<Rightarrow> real \<Rightarrow> string" where
  "determineStatusFromOpenSky on_ground altitude =
     (if on_ground then ''on-ground''
      else if altitude < 1000 then ''taxiing''
      else if altitude > 5000 then ''in-flight''
      else ''climbing'')"



subsection \<open>The API client: configuration and great-circle distance\<close>

text \<open>
  The fields of \<^verbatim>\<open>APIClient\<close> that the modelled methods read. The constructor never sets
  \<^verbatim>\<open>aviationStackKey\<close> (the assignment is commented out), so it is absent in
  \<^term>\<open>APIClient\<close>, the client both revisions construct when the environment is empty;
  they differ in the default radius only.
\<close>

record client =
  aviationStackKey :: "string option"
  airportLat :: real
  airportLon :: real
  airportRadius :: real

definition APIClient :: "real \<Rightarrow> client" where
  "APIClient radius =
     \<lparr>aviationStackKey = None, airportLat = 50.0379, airportLon = 8.5622,
      airportRadius = radius\<rparr>"

definition toRad :: "real \<Rightarrow> real" where
  "toRad degrees = degrees * pi / 180"

text \<open>\<^verbatim>\<open>Math.atan2(y, x)\<close> on the reals (signed zeros are not represented).\<close>

definition atan2 :: "real \<Rightarrow> real \<Rightarrow> real" where
  "atan2 y x =
     (if x > 0 then arctan (y / x)
      else if x < 0 then (if y \<ge> 0 then arctan (y / x) + pi else arctan (y / x) - pi)
      else if y > 0 then pi / 2
      else if y < 0 then - (pi / 2)
      else 0)"

text \<open>
  \<^verbatim>\<open>calculateDistance\<close>, the haversine formula. \<^verbatim>\<open>Math.sqrt\<close> of a negative number is
  \<^verbatim>\<open>NaN\<close>, which \<^term>\<open>sqrt\<close> does not show; \<open>a\<close> and \<open>1 - a\<close> are not negative when
  both latitudes lie in \<open>[-90, 90]\<close>.
\<close>

definition calculateDistance :: "real \<Rightarrow> real \<Rightarrow> real \<Rightarrow> real \<Rightarrow> real" where
  "calculateDistance lat1 lon1 lat2 lon2 =
     (let R = 6371;
          dLat = toRad (lat2 - lat1);
          dLon = toRad (lon2 - lon1);
          a = sin (dLat / 2) * sin (dLat / 2) +
              cos (toRad lat1) * cos (toRad lat2) * sin (dLon / 2) * sin (dLon / 2);
          c = 2 * atan2 (sqrt a) (sqrt (1 - a))
      in R * c)"

definition isInAirportZone :: "client \<Rightarrow> real \<Rightarrow> real \<Rightarrow> bool" where
  "isInAirportZone this lat lon =
     (calculateDistance (airportLat this) (airportLon this) lat lon \<le> airportRadius this)"

subsection \<open>Bounding boxes\<close>

record box =
  lamin :: real
  lomin :: real
  lamax :: real
  lomax :: real

definition createBoundingBox :: "real \<Rightarrow> real \<Rightarrow> real \<Rightarrow> box" where
  "createBoundingBox centerLat centerLon halfSizeKm =
     (let latDelta = halfSizeKm / 111.32;
          lonDelta = halfSizeKm / (111.32 * cos (toRad centerLat))
      in \<lparr>lamin = max (- 90) (centerLat - latDelta),
          lomin = max (- 180) (centerLon - lonDelta),
          lamax = min 90 (centerLat + latDelta),
          lomax = min 180 (centerLon + lonDelta)\<rparr>)"

text \<open>
  The body of the two nested loops of \<^verbatim>\<open>calculateBoundingBoxes\<close>: the box of row \<open>i\<close> and
  column \<open>j\<close> of a grid of \<open>numBoxes\<close> by \<open>numBoxes\<close> tiles.
\<close>

definition tileBox :: "real \<Rightarrow> real \<Rightarrow> nat \<Rightarrow> nat \<Rightarrow> nat \<Rightarrow> box" where
  "tileBox centerLat centerLon numBoxes i j =
     (let maxBoxSize = 500;
          overlap = 50;
          latOffset = (real i - (real numBoxes - 1) / 2) * (maxBoxSize - overlap);
          lonOffset = (real j - (real numBoxes - 1) / 2) * (maxBoxSize - overlap);
          boxLat = centerLat + latOffset / 111.32;
          boxLon = centerLon + lonOffset / (111.32 * cos (toRad centerLat))
      in createBoundingBox boxLat boxLon (maxBoxSize / 2))"

definition calculateBoundingBoxes :: "real \<Rightarrow> real \<Rightarrow> real \<Rightarrow> box list" where
  "calculateBoundingBoxes centerLat centerLon radiusKm =
     (let maxBoxSize = 500 in
      if radiusKm \<le> maxBoxSize then [createBoundingBox centerLat centerLon radiusKm]
      else
        (let numBoxes = nat \<lceil>radiusKm / maxBoxSize\<rceil> in
         concat (map (\<lambda>i. map (\<lambda>j. tileBox centerLat centerLon numBoxes i j) [0..<numBoxes])
                     [0..<numBoxes])))"

subsection \<open>Telemetry: raw states and normalized positions\<close>

text \<open>
  One element of \<^verbatim>\<open>response.data.states\<close>: a positional array, read at the offsets
  1 (callsign), 2 (origin country), 4 (last contact), 5 (longitude), 6 (latitude),
  7 (altitude in metres), 8 (on ground), 9 (velocity in m/s), 10 (heading) and
  11 (vertical rate). Every entry may be \<^verbatim>\<open>null\<close>.
\<close>

record state =
  st_callsign :: "string option"
  st_origin_country :: "string option"
  st_last_contact :: "int option"
  st_longitude :: "real option"
  st_latitude :: "real option"
  st_altitude :: "real option"
  st_on_ground :: "bool option"
  st_velocity :: "real option"
  st_heading :: "real option"
  st_vertical_rate :: "real option"

record flight =
  callsign :: string
  origin_country :: "string option"
  longitude :: "real option"
  latitude :: "real option"
  altitude :: real
  velocity :: real
  heading :: real
  vertical_rate :: real
  on_ground :: bool
  last_contact :: "int option"
  timestamp :: int

text \<open>The object the second \<^verbatim>\<open>map\<close> builds: \<^verbatim>\<open>{ ...flight, distance, index }\<close>.\<close>

record located = flight +
  distance :: real
  index :: nat

text \<open>The first \<^verbatim>\<open>map\<close> of \<^verbatim>\<open>getOpenSkyFlights\<close>; \<open>now\<close> is the clock read by \<^verbatim>\<open>new Date()\<close>.\<close>

definition normalize :: "int \<Rightarrow> state \<Rightarrow> flight" where
  "normalize now st =
     \<lparr>callsign = (if truthy (st_callsign st) then trim (the (st_callsign st)) else ''UNKNOWN''),
      origin_country = st_origin_country st,
      longitude = st_longitude st,
      latitude = st_latitude st,
      altitude = (case st_altitude st of None \<Rightarrow> 0 | Some m \<Rightarrow> if m \<noteq> 0 then m * 3.28084 else 0),
      velocity = (case st_velocity st of None \<Rightarrow> 0 | Some v \<Rightarrow> if v \<noteq> 0 then v * 1.94384 else 0),
      heading = or_num (st_heading st) 0,
      vertical_rate = or_num (st_vertical_rate st) 0,
      on_ground = (case st_on_ground st of None \<Rightarrow> False | Some b \<Rightarrow> b),
      last_contact = st_last_contact st,
      timestamp = now\<rparr>"

text \<open>The second \<^verbatim>\<open>map\<close>: the distance from the airport and the position in the list.\<close>

definition locate :: "client \<Rightarrow> flight \<Rightarrow> nat \<Rightarrow> located" where
  "locate this f i =
     flight.extend f
       \<lparr>distance = calculateDistance (airportLat this) (airportLon this)
                     (toNumber (latitude f)) (toNumber (longitude f)),
        index = i\<rparr>"

definition locateAll :: "client \<Rightarrow> flight list \<Rightarrow> located list" where
  "locateAll this fs = map (\<lambda>(f, i). locate this f i) (zip fs [0..<length fs])"

text \<open>
  \<^verbatim>\<open>flights.sort((a, b) => a.distance - b.distance)\<close>. \<^verbatim>\<open>Array.prototype.sort\<close> is stable
  and the comparator is a total preorder on reals, which fixes the result; insertion sort
  computes it.
\<close>

definition sortByDistance :: "located list \<Rightarrow> located list" where
  "sortByDistance flights = sort_key distance flights"

text \<open>
  The loop that logs the closest five flights calls \<^verbatim>\<open>toFixed\<close> on their latitude and
  longitude, which throws on \<^verbatim>\<open>null\<close>.
\<close>

definition logClosest :: "located list \<Rightarrow> js_error + unit" where
  "logClosest flights =
     (if \<forall>f \<in> set (take (min 5 (length flights)) flights). latitude f \<noteq> None \<and> longitude f \<noteq> None
      then Inr () else Inl TypeError)"

record openSkyBody =
  states :: "state option list option"

text \<open>
  Everything of \<^verbatim>\<open>getOpenSkyFlights\<close> after the request, inside the \<^verbatim>\<open>try\<close>: \<open>cutoff\<close> is
  the bound of the final filter.
\<close>

definition zoneOfResponse ::
  "client \<Rightarrow> real \<Rightarrow> int \<Rightarrow> openSkyBody option \<Rightarrow> js_error + located list" where
  "zoneOfResponse this cutoff now data =
     (case data of
        None \<Rightarrow> Inr []
      | Some body \<Rightarrow>
          (case states body of
             None \<Rightarrow> Inr []
           | Some sts \<Rightarrow>
               (let validStates = filter (\<lambda>st. st \<noteq> None) sts in
                if length validStates = 0 then Inr []
                else
                  (let flights = sortByDistance
                                   (locateAll this (map (\<lambda>st. normalize now (the st)) validStates))
                   in case logClosest flights of
                        Inl e \<Rightarrow> Inl e
                      | Inr u \<Rightarrow> Inr (filter (\<lambda>f. distance f \<le> cutoff) flights)))))"

text \<open>
  \<^verbatim>\<open>getOpenSkyFlights\<close> of \<^verbatim>\<open>utils/apiclient.js\<close>: one request; the final filter compares
  with the literal 200 ("temporarily increased to 200km for testing"), not with
  \<^verbatim>\<open>this.airportRadius\<close>.
\<close>

definition getOpenSkyFlights :: "client \<Rightarrow> int \<Rightarrow> openSkyBody option response \<Rightarrow> located list" where
  "getOpenSkyFlights this now resp =
     (case (case resp of Rejected \<Rightarrow> Inl RequestFailed
                       | Resolved data \<Rightarrow> zoneOfResponse this 200 now data) of
        Inl e \<Rightarrow> []
      | Inr flights \<Rightarrow> flights)"

text \<open>
  \<^verbatim>\<open>getOpenSkyFlights\<close> of the later revision: a request with credentials, on rejection one
  without; the final filter compares with \<^verbatim>\<open>this.airportRadius\<close>.
\<close>

definition getOpenSkyFlights_retry ::
  "client \<Rightarrow> int \<Rightarrow> openSkyBody option response \<Rightarrow> openSkyBody option response \<Rightarrow> located list" where
  "getOpenSkyFlights_retry this now withAuth anonymous =
     (case (case (case withAuth of Rejected \<Rightarrow> anonymous | Resolved data \<Rightarrow> withAuth) of
              Rejected \<Rightarrow> Inl RequestFailed
            | Resolved data \<Rightarrow> zoneOfResponse this (airportRadius this) now data) of
        Inl e \<Rightarrow> []
      | Inr flights \<Rightarrow> flights)"

subsection \<open>Deduplication\<close>








subsection \<open>Schedules: the fetch and its sample data\<close>

definition generateSampleFlights :: "int \<Rightarrow> schedule list" where
  "generateSampleFlights now =
     [\<lparr>flightNumber = Some ''LH123'', airline = Some ''Lufthansa'', airlineCode = Some ''LH'',
       departure = \<lparr>airport = Some ''Frankfurt am Main'', iata = Some ''FRA'',
                    scheduled = Some (now + 3600000), estimated = Some (now + 3700000),
                    actual = None, terminal = Some ''Terminal 1'', gate = Some ''A5''\<rparr>,
       arrival = \<lparr>airport = Some ''Berlin Brandenburg'', iata = Some ''BER'',
                  scheduled = Some (now + 5400000), estimated = Some (now + 5500000),
                  actual = None, terminal = Some ''Terminal 1'', gate = Some ''B3''\<rparr>,
       status = Some ''scheduled'',
       aircraft = Some \<lparr>registration = Some ''D-AIDE'', iataType = Some ''A320'',
                        icaoType = Some ''A320''\<rparr>\<rparr>,
      \<lparr>flightNumber = Some ''DL456'', airline = Some ''Delta Air Lines'', airlineCode = Some ''DL'',
       departure = \<lparr>airport = Some ''Frankfurt am Main'', iata = Some ''FRA'',
                    scheduled = Some (now + 7200000), estimated = Some (now + 7300000),
                    actual = None, terminal = Some ''Terminal 2'', gate = Some ''C12''\<rparr>,
       arrival = \<lparr>airport = Some ''New York John F Kennedy'', iata = Some ''JFK'',
                  scheduled = Some (now + 36000000), estimated = Some (now + 36100000),
                  actual = None, terminal = Some ''Terminal 4'', gate = Some ''A20''\<rparr>,
       status = Some ''scheduled'',
       aircraft = Some \<lparr>registration = Some ''N123DA'', iataType = Some ''A350'',
                        icaoType = Some ''A350''\<rparr>\<rparr>,
      \<lparr>flightNumber = Some ''BA789'', airline = Some ''British Airways'', airlineCode = Some ''BA'',
       departure = \<lparr>airport = Some ''Frankfurt am Main'', iata = Some ''FRA'',
                    scheduled = Some (now - 600000), estimated = Some (now - 500000),
                    actual = Some (now - 480000), terminal = Some ''Terminal 3'',
                    gate = Some ''E8''\<rparr>,
       arrival = \<lparr>airport = Some ''London Heathrow'', iata = Some ''LHR'',
                  scheduled = Some (now + 3600000), estimated = Some (now + 3500000),
                  actual = None, terminal = Some ''Terminal 5'', gate = Some ''B15''\<rparr>,
       status = Some ''active'',
       aircraft = Some \<lparr>registration = Some ''G-XWBA'', iataType = Some ''B787'',
                        icaoType = Some ''B787''\<rparr>\<rparr>]"

text \<open>
  One element of the AviationStack payload. \<^verbatim>\<open>flight\<close>, \<^verbatim>\<open>airline\<close>, \<^verbatim>\<open>departure\<close> and
  \<^verbatim>\<open>arrival\<close> are dereferenced without a guard, \<^verbatim>\<open>aircraft\<close> with \<^verbatim>\<open>?.\<close>.
\<close>

record avsIdent =
  ident_iata :: "string option"
  ident_icao :: "string option"

record avsAirline =
  airline_name :: "string option"
  airline_iata :: "string option"

record avsFlight =
  avs_flight :: "avsIdent option"
  avs_airline :: "avsAirline option"
  avs_departure :: "endpoint option"
  avs_arrival :: "endpoint option"
  avs_flight_status :: "string option"
  avs_aircraft :: "aircraft option"

record avsBody =
  avs_error :: bool
  avs_data :: "avsFlight list option"

definition transformFlight :: "avsFlight \<Rightarrow> js_error + schedule" where
  "transformFlight fl =
     (case (avs_flight fl, avs_airline fl, avs_departure fl, avs_arrival fl) of
        (Some ident, Some al, Some dep, Some arr) \<Rightarrow>
          Inr \<lparr>flightNumber = (if truthy (ident_iata ident) then ident_iata ident
                                else ident_icao ident),
               airline = airline_name al,
               airlineCode = airline_iata al,
               departure = dep,
               arrival = arr,
               status = avs_flight_status fl,
               aircraft = Some (case avs_aircraft fl of
                                  None \<Rightarrow> \<lparr>registration = None, iataType = None, icaoType = None\<rparr>
                                | Some a \<Rightarrow> a)\<rparr>
      | _ \<Rightarrow> Inl TypeError)"

text \<open>\<^verbatim>\<open>Array.prototype.map\<close> with a callback that may throw.\<close>

fun mapThrowing :: "('a \<Rightarrow> js_error + 'b) \<Rightarrow> 'a list \<Rightarrow> js_error + 'b list" where
  "mapThrowing f [] = Inr []"
| "mapThrowing f (x # xs) =
     (case f x of
        Inl e \<Rightarrow> Inl e
      | Inr y \<Rightarrow> (case mapThrowing f xs of Inl e \<Rightarrow> Inl e | Inr ys \<Rightarrow> Inr (y # ys)))"

text \<open>
  \<^verbatim>\<open>getAviationStackFlights\<close> (the same in both revisions). Without a key no request is
  made. \<^verbatim>\<open>JSON.stringify(undefined).substring\<close> throws when the body is absent.
\<close>

definition getAviationStackFlights ::
  "client \<Rightarrow> int \<Rightarrow> avsBody option response \<Rightarrow> schedule list" where
  "getAviationStackFlights this now resp =
     (case (if \<not> truthy (aviationStackKey this) then Inr (generateSampleFlights now)
            else case resp of
                   Rejected \<Rightarrow> Inl RequestFailed
                 | Resolved None \<Rightarrow> Inl TypeError
                 | Resolved (Some body) \<Rightarrow>
                     if avs_error body then Inr (generateSampleFlights now)
                     else (case avs_data body of
                             None \<Rightarrow> Inr (generateSampleFlights now)
                           | Some items \<Rightarrow>
                               if length items = 0 then Inr (generateSampleFlights now)
                               else mapThrowing transformFlight items)) of
        Inl e \<Rightarrow> generateSampleFlights now
      | Inr flights \<Rightarrow> flights)"

subsection \<open>The correlator of \<^verbatim>\<open>getLiveFlights\<close>\<close>

text \<open>
  \<^verbatim>\<open>scheduleMap\<close> is a plain object keyed by flight number. It is represented by the list
  of its entries in the order \<^verbatim>\<open>Object.entries\<close> yields them, which for keys that are not
  array indices (flight numbers carry an airline designator) is the order of first
  insertion; only own properties are represented. \<^verbatim>\<open>scheduleMap[k] = v\<close> replaces the value
  of a present key in place and appends an absent one.
\<close>

type_synonym scheduleMap = "(string \<times> schedule) list"

fun setEntry :: "scheduleMap \<Rightarrow> string \<Rightarrow> schedule \<Rightarrow> scheduleMap" where
  "setEntry [] k v = [(k, v)]"
| "setEntry ((k', v') # m) k v = (if k' = k then (k, v) # m else (k', v') # setEntry m k v)"

definition getEntry :: "scheduleMap \<Rightarrow> string \<Rightarrow> schedule option" where
  "getEntry m k = map_of m k"

text \<open>The two loops that fill the map: the fetched schedules, then the sample schedules.\<close>

fun addApiSchedules :: "scheduleMap \<Rightarrow> schedule list \<Rightarrow> scheduleMap" where
  "addApiSchedules m [] = m"
| "addApiSchedules m (s # ss) =
     (if truthy (flightNumber s) then addApiSchedules (setEntry m (the (flightNumber s)) s) ss
      else addApiSchedules m ss)"

fun addSampleSchedules :: "scheduleMap \<Rightarrow> schedule list \<Rightarrow> scheduleMap" where
  "addSampleSchedules m [] = m"
| "addSampleSchedules m (s # ss) =
     (if truthy (flightNumber s) \<and> getEntry m (the (flightNumber s)) = None
      then addSampleSchedules (setEntry m (the (flightNumber s)) s) ss
      else addSampleSchedules m ss)"

definition buildScheduleMap :: "schedule list \<Rightarrow> schedule list \<Rightarrow> scheduleMap" where
  "buildScheduleMap aviationStackFlights sampleSchedules =
     addSampleSchedules (addApiSchedules [] aviationStackFlights) sampleSchedules"

text \<open>The test of the fallback loop, and the loop with its \<^verbatim>\<open>break\<close>.\<close>

definition fallbackHit :: "string \<Rightarrow> string \<Rightarrow> schedule \<Rightarrow> bool" where
  "fallbackHit cs flightNum sched =
     (str_includes flightNum (substring0 cs 2) \<or>
      (case aircraft sched of None \<Rightarrow> False | Some a \<Rightarrow> registration a = Some cs))"

fun scanEntries :: "string \<Rightarrow> scheduleMap \<Rightarrow> schedule option" where
  "scanEntries cs [] = None"
| "scanEntries cs ((flightNum, sched) # rest) =
     (if fallbackHit cs flightNum sched then Some sched else scanEntries cs rest)"

definition placeholder :: "string \<Rightarrow> schedule" where
  "placeholder cs =
     \<lparr>flightNumber = Some cs, airline = Some ''Unknown Airline'', airlineCode = Some ''UNK'',
      departure = \<lparr>airport = Some ''Unknown Airport'', iata = Some ''N/A'', scheduled = None,
                   estimated = None, actual = None, terminal = Some ''N/A'',
                   gate = Some ''N/A''\<rparr>,
      arrival = \<lparr>airport = Some ''Unknown Airport'', iata = Some ''N/A'', scheduled = None,
                 estimated = None, actual = None, terminal = Some ''N/A'',
                 gate = Some ''N/A''\<rparr>,
      status = Some ''in-flight'',
      aircraft = Some \<lparr>registration = Some cs, iataType = Some ''UNK'',
                       icaoType = Some ''UNK''\<rparr>\<rparr>"

definition matchSchedule :: "scheduleMap \<Rightarrow> string \<Rightarrow> schedule" where
  "matchSchedule m cs =
     (case getEntry m cs of
        Some sched \<Rightarrow> sched
      | None \<Rightarrow> (case scanEntries cs m of Some sched \<Rightarrow> sched | None \<Rightarrow> placeholder cs))"

subsection \<open>Enrichment\<close>

record position =
  pos_latitude :: real
  pos_longitude :: real
  pos_altitude :: real
  pos_velocity :: real
  pos_heading :: real

record enriched =
  e_callsign :: string
  e_origin_country :: string
  e_position :: position
  e_latitude :: real
  e_longitude :: real
  e_altitude :: real
  e_velocity :: real
  e_heading :: real
  e_on_ground :: bool
  e_gate :: string
  e_terminal :: string
  e_status :: string
  e_schedule :: schedule
  e_last_update :: int

text \<open>The callback of \<^verbatim>\<open>openSkyFlights.map\<close> in \<^verbatim>\<open>getLiveFlights\<close>.\<close>

definition enrich :: "scheduleMap \<Rightarrow> 'a flight_scheme \<Rightarrow> enriched" where
  "enrich m f =
     (let sched = matchSchedule m (callsign f) in
      \<lparr>e_callsign = callsign f,
       e_origin_country = or_str (origin_country f) ''Unknown'',
       e_position = \<lparr>pos_latitude = or_num (latitude f) 0, pos_longitude = or_num (longitude f) 0,
                     pos_altitude = or_num (Some (altitude f)) 0,
                     pos_velocity = or_num (Some (velocity f)) 0,
                     pos_heading = or_num (Some (heading f)) 0\<rparr>,
       e_latitude = or_num (latitude f) 0,
       e_longitude = or_num (longitude f) 0,
       e_altitude = or_num (Some (altitude f)) 0,
       e_velocity = or_num (Some (velocity f)) 0,
       e_heading = or_num (Some (heading f)) 0,
       e_on_ground = on_ground f,
       e_gate = or_str (gate (departure sched)) ''N/A'',
       e_terminal = or_str (terminal (departure sched)) ''N/A'',
       e_status = determineStatusFromOpenSky (on_ground f) (altitude f),
       e_schedule = sched,
       e_last_update = timestamp f\<rparr>)"

text \<open>
  \<^verbatim>\<open>getLiveFlights\<close> after the two fetches. The writes to Redis and MongoDB sit in their
  own \<^verbatim>\<open>try/catch\<close> and do not touch the result. \<open>sampleSchedules\<close> stands for the table
  \<^verbatim>\<open>generateSampleSchedules()\<close> returns.
\<close>

definition getLiveFlights ::
  "schedule list \<Rightarrow> 'a flight_scheme list \<Rightarrow> schedule list \<Rightarrow> enriched list" where
  "getLiveFlights sampleSchedules openSkyFlights aviationStackFlights =
     map (enrich (buildScheduleMap aviationStackFlights sampleSchedules)) openSkyFlights"

subsection \<open>Specification vocabulary and fixtures\<close>




text \<open>A raw state with the given callsign, position and altitude, for the examples.\<close>

definition exampleState :: "string \<Rightarrow> real option \<Rightarrow> real option \<Rightarrow> real \<Rightarrow> state" where
  "exampleState cs lat lon alt =
     \<lparr>st_callsign = Some cs, st_origin_country = Some ''Germany'', st_last_contact = Some 0,
      st_longitude = lon, st_latitude = lat, st_altitude = Some alt, st_on_ground = Some False,
      st_velocity = Some 200, st_heading = Some 90, st_vertical_rate = None\<rparr>"

text \<open>An element of the schedule payload that lacks one of the objects the transform reads.\<close>

definition malformedItem :: "avsFlight \<Rightarrow> bool" where
  "malformedItem fl =
     (avs_flight fl = None \<or> avs_airline fl = None \<or> avs_departure fl = None \<or>
      avs_arrival fl = None)"



text \<open>
  A raw state due north of the default airport (50.0379, 8.5622), \<open>d\<close> km away along the
  meridian.
\<close>

definition atDistance :: "string \<Rightarrow> real \<Rightarrow> state" where
  "atDistance cs d = exampleState cs (Some (50.0379 + d * 180 / (6371 * pi))) (Some 8.5622) 10000"

section \<open>Properties\<close>

subsection \<open>Status resolution\<close>



subsection \<open>The correlator\<close>















subsection \<open>Enrichment\<close>

lemma or_str_nonempty: "d \<noteq> [] \<Longrightarrow> or_str x d \<noteq> []"
  by (cases x) (auto simp: or_str_def)

lemma trim_example: "trim ''LH123   '' = ''LH123''" "trim ''QQ9'' = ''QQ9''"
  by (simp_all add: trim_def isSpace_def)

text \<open>
  C10. The enrichment step of \<^verbatim>\<open>getLiveFlights\<close> emits one record per live position, in
  the order of the positions; the record of a position carries the schedule matched for
  its callsign, and its gate and terminal are non-empty strings: those of the matched
  schedule's departure when it has them, "N/A" otherwise.
\<close>

theorem enrichment_one_per_position:
  "let m = buildScheduleMap api samples; out = getLiveFlights samples flights api in
     length out = length flights \<and>
     map e_callsign out = map callsign flights \<and>
     (\<forall>i < length flights.
        let sched = matchSchedule m (callsign (flights ! i)); r = out ! i in
          e_schedule r = sched \<and> e_gate r \<noteq> [] \<and> e_terminal r \<noteq> [] \<and>
          e_gate r = (if truthy (gate (departure sched)) then the (gate (departure sched))
                      else ''N/A'') \<and>
          e_terminal r = (if truthy (terminal (departure sched))
                          then the (terminal (departure sched)) else ''N/A''))"
  by (simp add: Let_def getLiveFlights_def enrich_def or_str_nonempty) (simp add: or_str_def)

theorem enrichment_witness:
  "map e_callsign
      (getLiveFlights []
         [normalize 0 (exampleState ''LH123   '' (Some 50.038) (Some 8.562) 10000),
          normalize 0 (exampleState ''QQ9'' None None 10000)]
         (generateSampleFlights 0)) = [''LH123'', ''QQ9''] \<and>
   map e_gate
      (getLiveFlights []
         [normalize 0 (exampleState ''LH123   '' (Some 50.038) (Some 8.562) 10000),
          normalize 0 (exampleState ''QQ9'' None None 10000)]
         (generateSampleFlights 0)) = [''A5'', ''N/A'']"
proof -
  let ?fs = "[normalize 0 (exampleState ''LH123   '' (Some 50.038) (Some 8.562) 10000),
          normalize 0 (exampleState ''QQ9'' None None 10000)]"
  let ?out = "getLiveFlights [] ?fs (generateSampleFlights 0)"
  have cs: "map callsign ?fs = [''LH123'', ''QQ9'']"
    by (simp add: normalize_def exampleState_def trim_example)
  note T = enrichment_one_per_position [of "generateSampleFlights 0" "[]" ?fs, unfolded Let_def]
  from T have len: "length ?out = 2" by simp
  from T cs have c: "map e_callsign ?out = [''LH123'', ''QQ9'']" by simp
  have m: "matchSchedule (buildScheduleMap (generateSampleFlights 0) []) ''LH123''
             = hd (generateSampleFlights 0)"
     "matchSchedule (buildScheduleMap (generateSampleFlights 0) []) ''QQ9'' = placeholder ''QQ9''"
    by (simp_all add: buildScheduleMap_def generateSampleFlights_def matchSchedule_def getEntry_def
          fallbackHit_def substring0_def)
  from T have "e_gate (?out ! 0) = ''A5''"
    using cs m by (simp add: generateSampleFlights_def)
  moreover from T have "e_gate (?out ! 1) = ''N/A''"
    using cs m by (simp add: placeholder_def)
  ultimately have "map e_gate ?out = [''A5'', ''N/A'']"
    using len by (simp add: list_eq_iff_nth_eq less_Suc_eq numeral_2_eq_2)
  with c show ?thesis by simp
qed

subsection \<open>The normalizer\<close>

text \<open>
  C6, amended to what the code does. The normalizer is total. It trims the callsign and
  falls back to "UNKNOWN"; it converts the altitude by 3.28084 and the velocity by 1.94384; an absent
  altitude, velocity, heading or vertical rate becomes 0 and an absent on-ground flag
  false. It checks no range: latitude and longitude are handed on as they came, absent
  ones included, and altitude and velocity are non-negative exactly when the raw values
  are non-negative or absent.
\<close>

theorem normalizer_defaults_and_units:
  "let f = normalize now st in
     callsign f = (if truthy (st_callsign st) then trim (the (st_callsign st)) else ''UNKNOWN'') \<and>
     altitude f = (case st_altitude st of None \<Rightarrow> 0 | Some m \<Rightarrow> m * 3.28084) \<and>
     velocity f = (case st_velocity st of None \<Rightarrow> 0 | Some v \<Rightarrow> v * 1.94384) \<and>
     heading f = (case st_heading st of None \<Rightarrow> 0 | Some h \<Rightarrow> h) \<and>
     vertical_rate f = (case st_vertical_rate st of None \<Rightarrow> 0 | Some r \<Rightarrow> r) \<and>
     on_ground f = (case st_on_ground st of None \<Rightarrow> False | Some b \<Rightarrow> b) \<and>
     latitude f = st_latitude st \<and> longitude f = st_longitude st \<and>
     (0 \<le> altitude f \<longleftrightarrow> (\<forall>m. st_altitude st = Some m \<longrightarrow> 0 \<le> m)) \<and>
     (0 \<le> velocity f \<longleftrightarrow> (\<forall>v. st_velocity st = Some v \<longrightarrow> 0 \<le> v))"
  by (auto simp: Let_def normalize_def zero_le_mult_iff split: option.splits)

theorem normalizer_witness:
  "altitude (normalize 0 (exampleState ''DLH4AB  '' (Some 50.038) (Some 8.562) 10000)) = 32808.4 \<and>
   velocity (normalize 0 (exampleState ''DLH4AB  '' (Some 50.038) (Some 8.562) 10000)) = 388.768 \<and>
   vertical_rate (normalize 0 (exampleState ''DLH4AB  '' (Some 50.038) (Some 8.562) 10000)) = 0 \<and>
   0 \<le> altitude (normalize 0 (exampleState ''DLH4AB  '' (Some 50.038) (Some 8.562) 10000))"
  using normalizer_defaults_and_units
          [of 0 "exampleState ''DLH4AB  '' (Some 50.038) (Some 8.562) 10000"]
  by (simp add: Let_def exampleState_def)

text \<open>
  The ranges the claim states for every output fail: a raw altitude of -100 m gives a
  negative altitude in feet, an absent position stays absent, and a latitude of 95 with a
  longitude of 200 is handed on.
\<close>

theorem normalizer_range_counterexample:
  "altitude (normalize 0 (exampleState ''DLH4AB  '' None None (- 100))) < 0 \<and>
   latitude (normalize 0 (exampleState ''DLH4AB  '' None None (- 100))) = None \<and>
   longitude (normalize 0 (exampleState ''DLH4AB  '' None None (- 100))) = None \<and>
   latitude (normalize 0 (exampleState ''DLH4AB  '' (Some 95) (Some 200) 0)) = Some 95 \<and>
   longitude (normalize 0 (exampleState ''DLH4AB  '' (Some 95) (Some 200) 0)) = Some 200"
  by (simp add: normalize_def exampleState_def)

subsection \<open>Failure of a fetch\<close>

lemma mapThrowing_Inl: "x \<in> set xs \<Longrightarrow> f x = Inl e \<Longrightarrow> \<exists>e'. mapThrowing f xs = Inl e'"
  by (induction xs) (auto split: sum.splits)

lemma transformFlight_malformed: "malformedItem fl \<Longrightarrow> transformFlight fl = Inl TypeError"
  by (auto simp: malformedItem_def transformFlight_def split: option.splits)

text \<open>
  C9, amended to what the code does. Neither fetch throws. The telemetry fetch returns the empty list
  when the request is rejected (after the retry, where there is one), when the body or its
  \<^verbatim>\<open>states\<close> is missing, and when no state is left after dropping the nulls. The schedule
  fetch returns its three sample schedules, not the empty list, when the request is
  rejected, when the body is missing or carries an error, when \<^verbatim>\<open>data\<close> is missing or empty,
  and when an element of it is malformed.
\<close>

theorem fetch_failure_recovered:
  "getOpenSkyFlights this now Rejected = [] \<and>
   getOpenSkyFlights this now (Resolved None) = [] \<and>
   getOpenSkyFlights this now (Resolved (Some \<lparr>states = None\<rparr>)) = [] \<and>
   getOpenSkyFlights this now (Resolved (Some \<lparr>states = Some (replicate n None)\<rparr>)) = [] \<and>
   getOpenSkyFlights_retry this now Rejected Rejected = [] \<and>
   getOpenSkyFlights_retry this now Rejected (Resolved None) = [] \<and>
   getOpenSkyFlights_retry this now (Resolved None) r = [] \<and>
   getOpenSkyFlights_retry this now Rejected (Resolved (Some \<lparr>states = None\<rparr>)) = [] \<and>
   getOpenSkyFlights_retry this now Rejected
     (Resolved (Some \<lparr>states = Some (replicate n None)\<rparr>)) = [] \<and>
   (resp = Rejected \<or> resp = Resolved None \<or>
    (\<exists>body. resp = Resolved (Some body) \<and>
       (avs_error body \<or> avs_data body = None \<or> avs_data body = Some [] \<or>
        (\<exists>items. avs_data body = Some items \<and> (\<exists>fl \<in> set items. malformedItem fl))))
      \<longrightarrow> getAviationStackFlights this now resp = generateSampleFlights now) \<and>
   length (generateSampleFlights now) = 3"
proof -
  have "getAviationStackFlights this now resp = generateSampleFlights now"
    if d: "avs_data body = Some items" and i: "fl \<in> set items" and b: "malformedItem fl"
      and r: "resp = Resolved (Some body)" for body items fl
  proof -
    obtain e where "mapThrowing transformFlight items = Inl e"
      using mapThrowing_Inl [of fl items transformFlight TypeError] i
        transformFlight_malformed [OF b] by blast
    then show ?thesis using d r by (simp add: getAviationStackFlights_def)
  qed
  then show ?thesis
    by (auto simp: getOpenSkyFlights_def getOpenSkyFlights_retry_def zoneOfResponse_def
          getAviationStackFlights_def generateSampleFlights_def)
qed

theorem fetch_failure_witness:
  "getOpenSkyFlights (APIClient 50) 0 Rejected = [] \<and>
   getAviationStackFlights ((APIClient 50)\<lparr>aviationStackKey := Some ''key''\<rparr>) 0 Rejected
     = generateSampleFlights 0 \<and>
   getAviationStackFlights ((APIClient 50)\<lparr>aviationStackKey := Some ''key''\<rparr>) 0
     (Resolved (Some \<lparr>avs_error = False, avs_data = Some []\<rparr>)) = generateSampleFlights 0"
  using fetch_failure_recovered [of "APIClient 50" 0 0 Rejected Rejected]
    fetch_failure_recovered [of "(APIClient 50)\<lparr>aviationStackKey := Some ''key''\<rparr>" 0 0 Rejected
       "Resolved (Some \<lparr>avs_error = False, avs_data = Some []\<rparr>)"]
    fetch_failure_recovered [of "(APIClient 50)\<lparr>aviationStackKey := Some ''key''\<rparr>" 0 0 Rejected
       Rejected]
  by simp

text \<open>
  The schedule fetch does not return an empty collection on a transport failure: with a
  key configured, and without one, a rejected request yields three schedules.
\<close>

theorem schedule_fetch_not_empty_counterexample:
  "length (getAviationStackFlights ((APIClient 50)\<lparr>aviationStackKey := Some ''key''\<rparr>) 0 Rejected)
     = 3 \<and>
   length (getAviationStackFlights (APIClient 50) 0 Rejected) = 3"
  by (simp add: getAviationStackFlights_def generateSampleFlights_def APIClient_def)

subsection \<open>Deduplication\<close>














subsection \<open>Great-circle distance\<close>





lemma toRad_bounds:
  assumes "- 90 < x" "x < 90"
  shows "- (pi / 2) < toRad x" "toRad x < pi / 2"
proof -
  have p: "0 < pi" by simp
  from assms p have "x * pi < 90 * pi" "(- 90) * pi < x * pi"
    by (simp_all only: mult_less_cancel_right_pos)
  then show "- (pi / 2) < toRad x" "toRad x < pi / 2"
    by (simp_all add: toRad_def)
qed





subsection \<open>Bounding boxes\<close>

lemma grid_length: "length (concat (map (\<lambda>i. map (f i) [0..<n]) [0..<m])) = m * n"
  by (induction m) simp_all

lemma grid_nth:
  "i < m \<Longrightarrow> j < n \<Longrightarrow> concat (map (\<lambda>i. map (f i) [0..<n]) [0..<m]) ! (i * n + j) = f i j"
proof (induction m)
  case 0
  then show ?case by simp
next
  case (Suc m)
  show ?case
  proof (cases "i < m")
    case True
    then have "i * n + j < m * n"
      using Suc.prems(2)
      by (metis add.commute less_iff_Suc_add mult_Suc add_less_cancel_right add_lessD1
            mult_le_mono1 Suc_leI le_trans less_le_trans not_less)
    with True Suc show ?thesis by (simp add: nth_append grid_length)
  next
    case False
    with Suc.prems have "i = m" by simp
    with Suc.prems show ?thesis by (simp add: nth_append grid_length)
  qed
qed

lemma createBoundingBox_clamped:
  "- 90 \<le> lamin (createBoundingBox lat lon h) \<and> lamax (createBoundingBox lat lon h) \<le> 90 \<and>
   - 180 \<le> lomin (createBoundingBox lat lon h) \<and> lomax (createBoundingBox lat lon h) \<le> 180"
  by (simp add: createBoundingBox_def Let_def)

lemma createBoundingBox_ordered:
  assumes "- 90 \<le> lat" "lat \<le> 90" "- 180 \<le> lon" "lon \<le> 180" "0 \<le> h"
  shows "lamin (createBoundingBox lat lon h) \<le> lamax (createBoundingBox lat lon h) \<and>
         lomin (createBoundingBox lat lon h) \<le> lomax (createBoundingBox lat lon h)"
proof -
  have p: "0 < pi" by simp
  from assms p have "lat * pi \<le> 90 * pi" "(- 90) * pi \<le> lat * pi"
    by (simp_all only: mult_le_cancel_right_pos)
  then have "0 \<le> cos (toRad lat)"
    by (intro cos_ge_zero) (simp_all add: toRad_def)
  then have "0 \<le> h / (111.32 * cos (toRad lat))" using assms by simp
  with assms show ?thesis by (simp add: createBoundingBox_def Let_def)
qed

lemma numBoxes_1200: "nat \<lceil>(1200 :: real) / 500\<rceil> = 3"
  by (simp add: ceiling_eq_iff)

lemma calculateBoundingBoxes_grid:
  "(r \<le> 500 \<longrightarrow> calculateBoundingBoxes lat lon r = [createBoundingBox lat lon r]) \<and>
   (500 < r \<longrightarrow>
      length (calculateBoundingBoxes lat lon r) = nat \<lceil>r / 500\<rceil> * nat \<lceil>r / 500\<rceil> \<and>
      (\<forall>i < nat \<lceil>r / 500\<rceil>. \<forall>j < nat \<lceil>r / 500\<rceil>.
         calculateBoundingBoxes lat lon r ! (i * nat \<lceil>r / 500\<rceil> + j) =
           createBoundingBox
             (lat + (real i - (real (nat \<lceil>r / 500\<rceil>) - 1) / 2) * (500 - 50) / 111.32)
             (lon + (real j - (real (nat \<lceil>r / 500\<rceil>) - 1) / 2) * (500 - 50) /
                      (111.32 * cos (toRad lat)))
             250)) \<and>
   length (calculateBoundingBoxes lat lon 1200) = 9"
proof -
  have one: "r \<le> 500 \<longrightarrow> calculateBoundingBoxes lat lon r = [createBoundingBox lat lon r]"
    by (simp add: calculateBoundingBoxes_def Let_def)
  have many: "500 < r \<longrightarrow>
      length (calculateBoundingBoxes lat lon r) = nat \<lceil>r / 500\<rceil> * nat \<lceil>r / 500\<rceil> \<and>
      (\<forall>i < nat \<lceil>r / 500\<rceil>. \<forall>j < nat \<lceil>r / 500\<rceil>.
         calculateBoundingBoxes lat lon r ! (i * nat \<lceil>r / 500\<rceil> + j) =
           createBoundingBox
             (lat + (real i - (real (nat \<lceil>r / 500\<rceil>) - 1) / 2) * (500 - 50) / 111.32)
             (lon + (real j - (real (nat \<lceil>r / 500\<rceil>) - 1) / 2) * (500 - 50) /
                      (111.32 * cos (toRad lat)))
             250)"
    by (simp add: calculateBoundingBoxes_def Let_def grid_length grid_nth tileBox_def)
  have nine: "length (calculateBoundingBoxes lat lon 1200) = 9"
    by (simp add: calculateBoundingBoxes_def Let_def numBoxes_1200 grid_length)
  from one many nine show ?thesis by blast
qed

lemma latitude_overlap_of_rows:
  assumes "- 90 \<le> lat + (real (Suc i) - (real n - 1) / 2) * 450 / 111.32 - 250 / 111.32"
    and "lat + (real i - (real n - 1) / 2) * 450 / 111.32 + 250 / 111.32 \<le> 90"
  shows "lamax (tileBox lat lon n i j) - lamin (tileBox lat lon n (Suc i) j) = 50 / 111.32"
proof -
  have a: "lamax (tileBox lat lon n i j)
             = lat + (real i - (real n - 1) / 2) * 450 / 111.32 + 250 / 111.32"
    using assms(2) by (simp add: tileBox_def createBoundingBox_def Let_def)
  have b: "lamin (tileBox lat lon n (Suc i) j)
             = lat + (real (Suc i) - (real n - 1) / 2) * 450 / 111.32 - 250 / 111.32"
    using assms(1) by (simp add: tileBox_def createBoundingBox_def Let_def)
  show ?thesis unfolding a b by (simp add: field_simps)
qed

lemma tile_beyond_pole:
  "length (calculateBoundingBoxes 89 0 1200) = 9 \<and>
   lamax (calculateBoundingBoxes 89 0 1200 ! 6) = 90 \<and>
   lamin (calculateBoundingBoxes 89 0 1200 ! 6) = 89 + 200 / 111.32 \<and>
   lamax (calculateBoundingBoxes 89 0 1200 ! 6) < lamin (calculateBoundingBoxes 89 0 1200 ! 6)"
proof -
  have n: "calculateBoundingBoxes 89 0 1200 ! (2 * 3 + 0) = tileBox 89 0 3 2 0"
    using grid_nth [of 2 3 0 3 "tileBox 89 0 3"]
    by (simp add: calculateBoundingBoxes_def Let_def numBoxes_1200)
  have l: "length (calculateBoundingBoxes 89 0 1200) = 9"
    by (simp add: calculateBoundingBoxes_def Let_def numBoxes_1200 grid_length)
  from n have "calculateBoundingBoxes 89 0 1200 ! 6 = tileBox 89 0 3 2 0" by simp
  then show ?thesis using l
    by (simp add: tileBox_def createBoundingBox_def Let_def)
qed


lemma tile_row0:
  "calculateBoundingBoxes lat lon 1200 ! 0 = tileBox lat lon 3 0 0"
  "calculateBoundingBoxes lat lon 1200 ! 1 = tileBox lat lon 3 0 1"
  using grid_nth [of 0 3 0 3 "tileBox lat lon 3"] grid_nth [of 0 3 1 3 "tileBox lat lon 3"]
  by (simp_all add: calculateBoundingBoxes_def Let_def numBoxes_1200)

lemma row0_overlap_le:
  "lomax (calculateBoundingBoxes lat lon 1200 ! 0) - lomin (calculateBoundingBoxes lat lon 1200 ! 1)
     \<le> (500 / cos (toRad (lat - 450 / 111.32)) - 450 / cos (toRad lat)) / 111.32"
proof -
  let ?cb = "cos (toRad (lat - 450 / 111.32))" and ?cc = "cos (toRad lat)"
  have a: "lomax (tileBox lat lon 3 0 0) \<le> lon - 450 / (111.32 * ?cc) + 250 / (111.32 * ?cb)"
    by (simp add: tileBox_def createBoundingBox_def Let_def)
  have b: "lon - 250 / (111.32 * ?cb) \<le> lomin (tileBox lat lon 3 0 1)"
    by (simp add: tileBox_def createBoundingBox_def Let_def)
  have "lomax (tileBox lat lon 3 0 0) - lomin (tileBox lat lon 3 0 1)
          \<le> (lon - 450 / (111.32 * ?cc) + 250 / (111.32 * ?cb)) - (lon - 250 / (111.32 * ?cb))"
    using a b by linarith
  also have "\<dots> = (500 / ?cb - 450 / ?cc) / 111.32"
    by (simp add: field_simps)
  finally show ?thesis by (simp only: tile_row0)
qed

lemma frankfurt_cos:
  "0 < cos (toRad 50.0379)" "cos (toRad 50.0379) < cos (toRad (50.0379 - 450 / 111.32))"
proof -
  have p: "0 < pi" by simp
  have lo: "0 \<le> toRad (50.0379 - 450 / 111.32)" by (simp add: toRad_def)
  have lt: "toRad (50.0379 - 450 / 111.32) < toRad 50.0379" by (simp add: toRad_def)
  have hi: "toRad 50.0379 < pi / 2" using p by (simp add: toRad_def)
  show "0 < cos (toRad 50.0379)"
    using lo lt hi by (intro cos_gt_zero) linarith+
  show "cos (toRad 50.0379) < cos (toRad (50.0379 - 450 / 111.32))"
    using lo lt hi p by (intro cos_monotone_0_pi) linarith+
qed

lemma frankfurt_row_overlap:
  "length (calculateBoundingBoxes 50.0379 8.5622 1200) = 9 \<and>
   (lomax (calculateBoundingBoxes 50.0379 8.5622 1200 ! 0) -
    lomin (calculateBoundingBoxes 50.0379 8.5622 1200 ! 1)) *
      (111.32 * cos (toRad (50.0379 - 450 / 111.32))) < 50 \<and>
   (lomax (calculateBoundingBoxes 50.0379 8.5622 1200 ! 0) -
    lomin (calculateBoundingBoxes 50.0379 8.5622 1200 ! 1)) *
      (111.32 * cos (toRad 50.0379)) < 50"
proof -
  let ?cb = "cos (toRad (50.0379 - 450 / 111.32))" and ?cc = "cos (toRad 50.0379)"
  let ?o = "lomax (calculateBoundingBoxes 50.0379 8.5622 1200 ! 0) -
    lomin (calculateBoundingBoxes 50.0379 8.5622 1200 ! 1)"
  have c: "0 < ?cc" "?cc < ?cb" by (rule frankfurt_cos)+
  then have cb: "0 < ?cb" by linarith
  have le: "?o \<le> (500 / ?cb - 450 / ?cc) / 111.32"
    by (rule row0_overlap_le)
  have r1: "1 < ?cb / ?cc" using c by simp
  have r2: "?cc / ?cb < 1" using c cb by simp
  have "?o * (111.32 * ?cb) \<le> (500 / ?cb - 450 / ?cc) / 111.32 * (111.32 * ?cb)"
    using le cb by (intro mult_right_mono) simp_all
  also have "\<dots> = 500 - 450 * (?cb / ?cc)" using c cb by (simp add: field_simps)
  also have "\<dots> < 50" using r1 by linarith
  finally have one: "?o * (111.32 * ?cb) < 50" .
  have "?o * (111.32 * ?cc) \<le> (500 / ?cb - 450 / ?cc) / 111.32 * (111.32 * ?cc)"
    using le c by (intro mult_right_mono) simp_all
  also have "\<dots> = 500 * (?cc / ?cb) - 450" using c cb by (simp add: field_simps)
  also have "\<dots> < 50" using r2 by linarith
  finally have two: "?o * (111.32 * ?cc) < 50" .
  have "length (calculateBoundingBoxes 50.0379 8.5622 1200) = 9"
    by (simp add: calculateBoundingBoxes_def Let_def numBoxes_1200 grid_length)
  with one two show ?thesis by blast
qed

lemma pi_ge_3: "3 \<le> pi"
  using sin_x_le_x [of "pi / 6"] sin_30 by simp

lemma cos_lower: "1 - x\<^sup>2 / 2 \<le> cos x" for x :: real
proof -
  have "cos x = 1 - 2 * (sin (x / 2))\<^sup>2" using cos_double_sin [of "x / 2"] by simp
  moreover have "(sin (x / 2))\<^sup>2 \<le> (x / 2)\<^sup>2"
    using abs_sin_x_le_abs_x [of "x / 2"] by (simp only: abs_le_square_iff)
  ultimately show ?thesis by (simp add: power2_eq_square)
qed

lemma sin_lower: "0 \<le> x \<Longrightarrow> x - x ^ 3 / 6 \<le> sin x" for x :: real
proof -
  assume x: "0 \<le> x"
  have "(\<Sum>m<3. sin_coeff m * x ^ m) = x"
    by (simp add: sin_coeff_def numeral_3_eq_3)
  then have "\<bar>sin x - x\<bar> \<le> inverse (fact 3) * \<bar>x\<bar> ^ 3"
    using Maclaurin_sin_bound [of x 3] by simp
  moreover have "inverse (fact 3) * \<bar>x\<bar> ^ 3 = x ^ 3 / 6"
    using x by (simp add: fact_numeral numeral_3_eq_3)
  ultimately show ?thesis by linarith
qed

lemma cos_row_60: "5 / 9 < cos (toRad (60 - 450 / 111.32))"
proof -
  define d where "d = toRad (450 / 111.32)"
  have p: "3 \<le> pi" "pi < 4" by (rule pi_ge_3, rule pi_less_4)
  have lo: "0.06737 \<le> d" using p(1) by (simp add: d_def toRad_def)
  have hi: "d \<le> 0.08984" using p(2) by (simp add: d_def toRad_def)
  have arg: "toRad (60 - 450 / 111.32) = pi / 3 - d"
    by (simp add: d_def toRad_def field_simps)
  have c: "0.9959 \<le> cos d"
  proof -
    have "d\<^sup>2 \<le> 0.08984\<^sup>2" using lo hi by (intro power_mono) simp_all
    then have "1 - 0.08984\<^sup>2 / 2 \<le> 1 - d\<^sup>2 / 2" by simp
    moreover have "(0.9959 :: real) \<le> 1 - 0.08984\<^sup>2 / 2" by (simp add: power2_eq_square)
    ultimately show ?thesis using cos_lower [of d] by linarith
  qed
  have s: "0.0673 \<le> sin d"
  proof -
    have "sin 0.06737 \<le> sin d"
      using lo hi p by (intro sin_monotone_2pi_le) simp_all
    moreover have "(0.06737 :: real) - 0.06737 ^ 3 / 6 \<le> sin 0.06737"
      by (rule sin_lower) simp
    moreover have "(0.0673 :: real) \<le> 0.06737 - 0.06737 ^ 3 / 6"
      by (simp add: power3_eq_cube)
    ultimately show ?thesis by linarith
  qed
  have r3: "1.732 \<le> sqrt 3"
    by (rule real_le_rsqrt) (simp add: power2_eq_square)
  have "1.732 / 2 * 0.0673 \<le> sqrt 3 / 2 * sin d"
    using s r3 by (intro mult_mono) simp_all
  then have t2: "0.05828 \<le> sqrt 3 / 2 * sin d" by simp
  have t1: "0.49795 \<le> 1 / 2 * cos d" using c by simp
  have "0.49795 + 0.05828 \<le> 1 / 2 * cos d + sqrt 3 / 2 * sin d"
    using t1 t2 by (rule add_mono)
  moreover have "(5 / 9 :: real) < 0.49795 + 0.05828" by simp
  ultimately have "5 / 9 < 1 / 2 * cos d + sqrt 3 / 2 * sin d"
    by (rule order.strict_trans2 [rotated])
  then show ?thesis by (simp only: arg cos_diff cos_60 sin_60)
qed

lemma row_gap_at_60:
  "lomax (calculateBoundingBoxes 60 8.5622 1200 ! 0)
     < lomin (calculateBoundingBoxes 60 8.5622 1200 ! 1)"
proof -
  let ?cb = "cos (toRad (60 - 450 / 111.32))"
  have cb: "5 / 9 < ?cb" by (rule cos_row_60)
  have cc: "cos (toRad 60) = 1 / 2" using cos_60 by (simp add: toRad_def)
  have "500 / ?cb < 900" using cb by (simp add: field_simps)
  then have "(500 / ?cb - 450 / cos (toRad 60)) / 111.32 < 0" by (simp add: cc)
  with row0_overlap_le [of 60 "8.5622"] show ?thesis by linarith
qed

text \<open>
  C4 says that adjacent tiles overlap by the 50 km margin; here the tiler is evaluated at
  two inputs where they do not. For a radius of 1200 km it returns nine boxes, spaced
  450 km apart and 250 km in half-size, but the longitude of a tile centre is
  converted with the cosine of the centre latitude and the longitude half-width with the
  cosine of the tile's own latitude. Around the default airport (50.0379, 8.5622) the
  first two tiles of the southern row therefore overlap by less than 50 km, whether the
  overlap in degrees is converted at the row's latitude or at the centre's; around
  (60, 8.5622) they do not overlap at all.
\<close>

theorem adjacent_tiles_overlap_not_margin:
  "length (calculateBoundingBoxes 50.0379 8.5622 1200) = 9 \<and>
   (lomax (calculateBoundingBoxes 50.0379 8.5622 1200 ! 0) -
    lomin (calculateBoundingBoxes 50.0379 8.5622 1200 ! 1)) *
      (111.32 * cos (toRad (50.0379 - 450 / 111.32))) < 50 \<and>
   (lomax (calculateBoundingBoxes 50.0379 8.5622 1200 ! 0) -
    lomin (calculateBoundingBoxes 50.0379 8.5622 1200 ! 1)) *
      (111.32 * cos (toRad 50.0379)) < 50 \<and>
   lomax (calculateBoundingBoxes 60 8.5622 1200 ! 0)
     < lomin (calculateBoundingBoxes 60 8.5622 1200 ! 1)"
  using frankfurt_row_overlap row_gap_at_60 by blast

lemma numBoxes_1600: "nat \<lceil>(1600 :: real) / 500\<rceil> = 4"
  by (simp add: ceiling_eq_iff)

lemma nadi_cos:
  "0 < cos (toRad (- 17.7554))" "0.85 \<le> cos (toRad (- 17.7554 - 675 / 111.32))"
proof -
  have p: "0 < pi" "pi < 4" using pi_less_4 by simp_all
  show "0 < cos (toRad (- 17.7554))"
    using toRad_bounds [of "- 17.7554"] by (intro cos_gt_zero_pi) simp_all
  let ?x = "toRad (- 17.7554 - 675 / 111.32)"
  have "\<bar>?x\<bar> = (17.7554 + 675 / 111.32) * pi / 180" by (simp add: toRad_def abs_mult)
  also have "\<dots> \<le> 0.5294" using p by simp
  finally have "\<bar>?x\<bar>\<^sup>2 \<le> 0.5294\<^sup>2" by (intro power_mono) simp_all
  then have "?x\<^sup>2 \<le> 0.5294\<^sup>2" by simp
  moreover have "(0.85 :: real) \<le> 1 - 0.5294\<^sup>2 / 2" by (simp add: power2_eq_square)
  ultimately show "0.85 \<le> cos ?x" using cos_lower [of ?x] by linarith
qed

text \<open>
  C8 says that every emitted box has its minima below its maxima; here the tiler is
  evaluated at two inputs where a box has not. Every box has its minima clamped from below and its maxima from above
  only, so the four outer bounds always hold, but a tile whose centre lies outside the
  valid range comes out with its minimum above its maximum: the northern row around
  (89, 0) with radius 1200 km (minimum latitude about 90.8, maximum 90), and the eastern
  column around Nadi (-17.7554, 177.4431) with radius 1600 km (minimum longitude above
  180, maximum 180).
\<close>

theorem tile_box_not_ordered:
  "lamax (calculateBoundingBoxes 89 0 1200 ! 6) = 90 \<and>
   lamin (calculateBoundingBoxes 89 0 1200 ! 6) = 89 + 200 / 111.32 \<and>
   lamax (calculateBoundingBoxes 89 0 1200 ! 6) < lamin (calculateBoundingBoxes 89 0 1200 ! 6) \<and>
   lomax (calculateBoundingBoxes (- 17.7554) 177.4431 1600 ! 3)
     < lomin (calculateBoundingBoxes (- 17.7554) 177.4431 1600 ! 3)"
proof -
  let ?cc = "cos (toRad (- 17.7554))" and ?cb = "cos (toRad (- 17.7554 - 675 / 111.32))"
  have n: "calculateBoundingBoxes (- 17.7554) 177.4431 1600 ! (0 * 4 + 3)
             = tileBox (- 17.7554) 177.4431 4 0 3"
    using grid_nth [of 0 4 3 4 "tileBox (- 17.7554) 177.4431 4"]
    by (simp add: calculateBoundingBoxes_def Let_def numBoxes_1600)
  have c: "0 < ?cc" "0.85 \<le> ?cb" by (rule nadi_cos)+
  have "?cc \<le> 1" by simp
  then have "675 / 111.32 \<le> 675 / (111.32 * ?cc)" using c(1) by (simp add: field_simps)
  moreover have "250 / (111.32 * ?cb) \<le> 250 / (111.32 * 0.85)"
    using c(2) by (intro divide_left_mono) simp_all
  moreover have "(180 :: real) < 177.4431 + 675 / 111.32 - 250 / (111.32 * 0.85)" by simp
  ultimately have gt: "180 < 177.4431 + 675 / (111.32 * ?cc) - 250 / (111.32 * ?cb)"
    by linarith
  have lo: "lomin (tileBox (- 17.7554) 177.4431 4 0 3)
      = max (- 180) (177.4431 + 675 / (111.32 * ?cc) - 250 / (111.32 * ?cb))"
    by (simp add: tileBox_def createBoundingBox_def Let_def)
  have hi: "lomax (tileBox (- 17.7554) 177.4431 4 0 3) \<le> 180"
    by (simp add: tileBox_def createBoundingBox_def Let_def)
  from lo gt hi have "lomax (tileBox (- 17.7554) 177.4431 4 0 3)
      < lomin (tileBox (- 17.7554) 177.4431 4 0 3)" by linarith
  with n tile_beyond_pole show ?thesis by simp
qed

subsection \<open>The zone filter\<close>

lemma atan2_sin_cos:
  assumes "0 \<le> t" "t < pi / 2"
  shows "atan2 (sin t) (cos t) = t"
proof -
  have c: "0 < cos t" using assms by (intro cos_gt_zero_pi) linarith+
  then have "atan2 (sin t) (cos t) = arctan (tan t)" by (simp add: atan2_def tan_def)
  also have "\<dots> = t" using assms by (intro arctan_tan) linarith+
  finally show ?thesis .
qed

lemma distance_along_meridian:
  assumes "0 \<le> d" "d \<le> 10000"
  shows "calculateDistance lat lon (lat + d * 180 / (6371 * pi)) lon = d"
proof -
  let ?t = "d / 12742"
  have p: "2 \<le> pi" by (rule pi_ge_two)
  have t: "0 \<le> ?t" "?t < pi / 2" using assms p by simp_all
  have dl: "toRad (lat + d * 180 / (6371 * pi) - lat) / 2 = ?t"
    by (simp add: toRad_def)
  have s: "0 \<le> sin ?t" using t p by (intro sin_ge_zero) linarith+
  have c: "0 \<le> cos ?t" using t by (intro cos_ge_zero) linarith+
  have a: "sin ?t * sin ?t + cos (toRad lat) * cos (toRad (lat + d * 180 / (6371 * pi))) *
             sin (toRad (lon - lon) / 2) * sin (toRad (lon - lon) / 2) = (sin ?t)\<^sup>2"
    by (simp add: toRad_def power2_eq_square)
  have "1 - (sin ?t)\<^sup>2 = (cos ?t)\<^sup>2" by (simp add: cos_squared_eq)
  then have "atan2 (sqrt ((sin ?t)\<^sup>2)) (sqrt (1 - (sin ?t)\<^sup>2)) = atan2 (sin ?t) (cos ?t)"
    using s c by simp
  also have "\<dots> = ?t" using t by (rule atan2_sin_cos)
  finally have "atan2 (sqrt ((sin ?t)\<^sup>2)) (sqrt (1 - (sin ?t)\<^sup>2)) = ?t" .
  then show ?thesis
    unfolding calculateDistance_def Let_def dl a by simp
qed

lemma locate_fields:
  "distance (locate this f i) =
     calculateDistance (airportLat this) (airportLon this) (toNumber (latitude f))
       (toNumber (longitude f))"
  "callsign (locate this f i) = callsign f"
  "latitude (locate this f i) = latitude f"
  "longitude (locate this f i) = longitude f"
  "index (locate this f i) = i"
  by (simp_all add: locate_def flight.defs)

lemma located_atDistance:
  assumes "0 \<le> d" "d \<le> 10000"
  shows "distance (locate (APIClient r) (normalize now (atDistance cs d)) i) = d"
  using distance_along_meridian [OF assms, of "50.0379" "8.5622"]
  by (simp add: locate_fields APIClient_def normalize_def atDistance_def exampleState_def)


lemma normalize_atDistance:
  "latitude (normalize now (atDistance cs d)) \<noteq> None"
  "longitude (normalize now (atDistance cs d)) \<noteq> None"
  "cs \<noteq> [] \<Longrightarrow> callsign (normalize now (atDistance cs d)) = trim cs"
  by (simp_all add: normalize_def atDistance_def exampleState_def del: not_None_eq)

lemma APIClient_fields:
  "airportRadius (APIClient r) = r" "airportLat (APIClient r) = 50.0379"
  "airportLon (APIClient r) = 8.5622" "aviationStackKey (APIClient r) = None"
  by (simp_all add: APIClient_def)

lemma trim_fixtures: "trim ''NEAR'' = ''NEAR''" "trim ''MID'' = ''MID''" "trim ''FAR'' = ''FAR''"
  by (simp_all add: trim_def isSpace_def)

lemma zoneOfResponse_sorted_stable:
  assumes "zoneOfResponse this cutoff now (Some \<lparr>states = Some sts\<rparr>) = Inr out"
    and "filter (\<lambda>st. st \<noteq> None) sts \<noteq> []"
  shows "sorted (map distance out) \<and>
         (\<forall>d. filter (\<lambda>f. distance f = d) out =
              (if d \<le> cutoff
               then filter (\<lambda>f. distance f = d)
                      (locateAll this (map (\<lambda>st. normalize now (the st))
                         (filter (\<lambda>st. st \<noteq> None) sts)))
               else []))"
proof -
  let ?all = "locateAll this (map (\<lambda>st. normalize now (the st)) (filter (\<lambda>st. st \<noteq> None) sts))"
  from assms have out: "out = filter (\<lambda>f. distance f \<le> cutoff) (sort_key distance ?all)"
    by (auto simp: zoneOfResponse_def Let_def sortByDistance_def split: sum.splits)
  have "sorted (map distance out)"
    unfolding out by (intro sorted_filter sorted_sort_key)
  moreover have "filter (\<lambda>f. distance f = d) out =
      (if d \<le> cutoff then filter (\<lambda>f. distance f = d) ?all else [])" for d
  proof -
    have "filter (\<lambda>f. distance f = d) out =
        filter (\<lambda>f. distance f \<le> cutoff) (filter (\<lambda>f. distance f = d) (sort_key distance ?all))"
      unfolding out by (simp add: conj_commute)
    also have "\<dots> = filter (\<lambda>f. distance f \<le> cutoff) (filter (\<lambda>f. distance f = d) ?all)"
      by (simp only: sort_key_stable)
    also have "\<dots> = (if d \<le> cutoff then filter (\<lambda>f. distance f = d) ?all else [])"
      by (auto intro: filter_cong)
    finally show ?thesis .
  qed
  ultimately show ?thesis by blast
qed

lemma zone_filter_example:
  "map callsign
     (getOpenSkyFlights_retry (APIClient 200) 0 Rejected
        (Resolved (Some \<lparr>states = Some [Some (atDistance ''FAR'' 250), None,
                                         Some (atDistance ''NEAR'' 10),
                                         Some (atDistance ''MID'' 60)]\<rparr>)))
     = [''NEAR'', ''MID''] \<and>
   map callsign
     (getOpenSkyFlights (APIClient 50) 0
        (Resolved (Some \<lparr>states = Some [Some (atDistance ''FAR'' 250), None,
                                         Some (atDistance ''NEAR'' 10),
                                         Some (atDistance ''MID'' 60)]\<rparr>)))
     = [''NEAR'', ''MID'']"
  by (simp add: getOpenSkyFlights_retry_def getOpenSkyFlights_def zoneOfResponse_def Let_def
        locateAll_def sortByDistance_def logClosest_def located_atDistance locate_fields(2-4)
        normalize_atDistance trim_fixtures APIClient_fields(1) del: not_None_eq)

text \<open>
  C3 says that the zone filter returns exactly the positions within the radius; here it
  is evaluated at two inputs where it does not. \<^verbatim>\<open>getOpenSkyFlights\<close> of
  \<^verbatim>\<open>utils/apiclient.js\<close> filters with the literal 200 instead of the configured radius:
  with the default radius of 50 km a flight 60 km away is returned. In both revisions the
  loop that logs the five closest flights throws on a flight without position, and the
  \<^verbatim>\<open>catch\<close> turns that into an empty result: a flight 10 km away is lost when the only
  other state has no position.
\<close>

theorem zone_filter_failing_inputs:
  "map callsign
     (getOpenSkyFlights (APIClient 50) 0
        (Resolved (Some \<lparr>states = Some [Some (atDistance ''MID'' 60)]\<rparr>))) = [''MID''] \<and>
   map distance
     (getOpenSkyFlights (APIClient 50) 0
        (Resolved (Some \<lparr>states = Some [Some (atDistance ''MID'' 60)]\<rparr>))) = [60] \<and>
   airportRadius (APIClient 50) = 50 \<and>
   getOpenSkyFlights (APIClient 50) 0
     (Resolved (Some \<lparr>states = Some [Some (atDistance ''NEAR'' 10),
                                      Some (exampleState ''NOPOS'' None None 10000)]\<rparr>)) = [] \<and>
   getOpenSkyFlights_retry (APIClient 1000) 0 Rejected
     (Resolved (Some \<lparr>states = Some [Some (atDistance ''NEAR'' 10),
                                      Some (exampleState ''NOPOS'' None None 10000)]\<rparr>)) = []"
proof -
  have one: "getOpenSkyFlights (APIClient 50) 0
        (Resolved (Some \<lparr>states = Some [Some (atDistance ''MID'' 60)]\<rparr>))
      = [locate (APIClient 50) (normalize 0 (atDistance ''MID'' 60)) 0]"
    by (simp add: getOpenSkyFlights_def zoneOfResponse_def Let_def
        locateAll_def sortByDistance_def logClosest_def located_atDistance locate_fields(2-4)
        normalize_atDistance del: not_None_eq)
  have cs: "callsign (normalize 0 (atDistance ''MID'' 60)) = ''MID''"
    by (simp add: normalize_atDistance trim_fixtures)
  have nopos: "latitude (normalize 0 (exampleState ''NOPOS'' None None 10000)) = None"
    by (simp add: normalize_def exampleState_def)
  have thrown: "logClosest (sortByDistance (locateAll this
        [normalize 0 (atDistance ''NEAR'' 10),
         normalize 0 (exampleState ''NOPOS'' None None 10000)])) = Inl TypeError" for this
  proof -
    let ?fs = "sortByDistance (locateAll this
        [normalize 0 (atDistance ''NEAR'' 10),
         normalize 0 (exampleState ''NOPOS'' None None 10000)])"
    have len: "length ?fs = 2" by (simp add: sortByDistance_def locateAll_def)
    let ?x = "locate this (normalize 0 (exampleState ''NOPOS'' None None 10000)) 1"
    have mem: "?x \<in> set ?fs"
      by (simp add: sortByDistance_def locateAll_def)
    have lat: "latitude ?x = None" by (simp add: locate_fields(3) nopos)
    have tk: "take (min 5 (length ?fs)) ?fs = ?fs" using len by simp
    have "\<not> (\<forall>f \<in> set (take (min 5 (length ?fs)) ?fs).
              latitude f \<noteq> None \<and> longitude f \<noteq> None)"
      unfolding tk using mem lat by blast
    then show ?thesis by (simp only: logClosest_def if_False)
  qed
  have two: "getOpenSkyFlights (APIClient 50) 0
     (Resolved (Some \<lparr>states = Some [Some (atDistance ''NEAR'' 10),
                                      Some (exampleState ''NOPOS'' None None 10000)]\<rparr>)) = []"
    by (simp add: getOpenSkyFlights_def zoneOfResponse_def Let_def thrown)
  have three: "getOpenSkyFlights_retry (APIClient 1000) 0 Rejected
     (Resolved (Some \<lparr>states = Some [Some (atDistance ''NEAR'' 10),
                                      Some (exampleState ''NOPOS'' None None 10000)]\<rparr>)) = []"
    by (simp add: getOpenSkyFlights_retry_def zoneOfResponse_def Let_def thrown)
  show ?thesis
    unfolding one two three
    by (simp add: locate_fields(2-4) cs located_atDistance APIClient_fields(1))
qed

end
